theory Spec2Isabelle
  imports Complex_Main "HOL-Library.Sublist"
begin

section \<open>Values of the host language and of the array libraries\<close>

text \<open>
  The module \<^verbatim>\<open>problemo/solverwrap.py\<close> wraps three external sparse direct solvers.
  Everything it takes from NumPy, SciPy and the solver bindings is opaque to it, so
  the model fixes only the operations the module uses: \<^verbatim>\<open>.shape\<close>, \<^verbatim>\<open>.T\<close>,
  \<^verbatim>\<open>getcol(j)\<close>, \<^verbatim>\<open>toarray()\<close>, \<^verbatim>\<open>ravel()\<close>, \<^verbatim>\<open>qs[:, j]\<close>, \<^verbatim>\<open>np.empty\<close> and the
  column assignment \<^verbatim>\<open>result[:, i] = v\<close>.
\<close>

text \<open>Exceptions are values. \<open>OtherError\<close> is any exception class the module never names.\<close>

datatype exc =
    Exception string
  | NotImplementedError
  | TypeError string
  | ValueError string
  | IndexError string
  | KeyError string
  | ImportError string
  | SyntaxError string
  | OtherError string

text \<open>
  A two-dimensional dense array: its shape and its entries. Entries outside the shape
  are never read by the module.
\<close>

record 'a ndarray =
  nd_shape :: "nat \<times> nat"
  nd_at :: "nat \<Rightarrow> nat \<Rightarrow> 'a"

text \<open>A sparse matrix: its shape and the entries it stores; an absent entry is zero.\<close>

record 'a spmatrix =
  sp_shape :: "nat \<times> nat"
  sp_data :: "nat \<times> nat \<Rightarrow> 'a option"

text \<open>\<^verbatim>\<open>A.T\<close> of a sparse matrix.\<close>

definition transpose_sp :: "'a spmatrix \<Rightarrow> 'a spmatrix" where
  "transpose_sp a =
     \<lparr>sp_shape = (snd (sp_shape a), fst (sp_shape a)),
      sp_data = (\<lambda>(i, j). sp_data a (j, i))\<rparr>"

text \<open>\<^verbatim>\<open>qs.getcol(j)\<close>: the column as a sparse matrix of shape \<open>(m, 1)\<close>.\<close>

definition getcol :: "'a spmatrix \<Rightarrow> nat \<Rightarrow> exc + 'a spmatrix" where
  "getcol qs j =
     (if j < snd (sp_shape qs)
      then Inr \<lparr>sp_shape = (fst (sp_shape qs), 1),
                sp_data = (\<lambda>(i, k). if k = 0 then sp_data qs (i, j) else None)\<rparr>
      else Inl (IndexError ''index out of bounds''))"

text \<open>\<^verbatim>\<open>toarray()\<close>: the dense array with zero at every absent entry.\<close>

definition toarray :: "('a::zero) spmatrix \<Rightarrow> 'a ndarray" where
  "toarray a =
     \<lparr>nd_shape = sp_shape a,
      nd_at = (\<lambda>i j. case sp_data a (i, j) of None \<Rightarrow> 0 | Some x \<Rightarrow> x)\<rparr>"

text \<open>\<^verbatim>\<open>ravel()\<close>: the entries in row-major order.\<close>

definition ravel :: "'a ndarray \<Rightarrow> 'a list" where
  "ravel d =
     concat (map (\<lambda>i. map (\<lambda>j. nd_at d i j) [0..<snd (nd_shape d)]) [0..<fst (nd_shape d)])"

text \<open>\<^verbatim>\<open>qs[:, j]\<close> on a dense array: column \<open>j\<close> as a vector.\<close>

definition dense_col :: "'a ndarray \<Rightarrow> nat \<Rightarrow> exc + 'a list" where
  "dense_col qs j =
     (if j < snd (nd_shape qs)
      then Inr (map (\<lambda>i. nd_at qs i j) [0..<fst (nd_shape qs)])
      else Inl (IndexError ''index out of bounds''))"

text \<open>
  \<^verbatim>\<open>np.empty(shape, dtype=np.complex128)\<close>: an array of the given shape whose entries
  are whatever the memory held; that content is the parameter \<open>junk\<close>.
\<close>

definition np_empty :: "(nat \<Rightarrow> nat \<Rightarrow> complex) \<Rightarrow> nat \<times> nat \<Rightarrow> complex ndarray" where
  "np_empty junk shp = \<lparr>nd_shape = shp, nd_at = junk\<rparr>"

text \<open>
  \<^verbatim>\<open>result[:, i] = v\<close> for a vector \<open>v\<close>: NumPy stores \<open>v\<close> when its length is the
  column's, repeats the entry of a vector of length one, and raises otherwise.
\<close>

definition set_col :: "complex ndarray \<Rightarrow> nat \<Rightarrow> complex list \<Rightarrow> exc + complex ndarray" where
  "set_col r i v =
     (let m = fst (nd_shape r) in
      if snd (nd_shape r) \<le> i then Inl (IndexError ''index out of bounds'')
      else if length v = m
        then Inr (r\<lparr>nd_at := (\<lambda>a b. if b = i \<and> a < m then v ! a else nd_at r a b)\<rparr>)
      else if length v = 1
        then Inr (r\<lparr>nd_at := (\<lambda>a b. if b = i \<and> a < m then v ! 0 else nd_at r a b)\<rparr>)
      else Inl (ValueError ''could not broadcast input array''))"

text \<open>Column \<open>j\<close> of a dense array, for stating results.\<close>

definition column :: "'a ndarray \<Rightarrow> nat \<Rightarrow> 'a list" where
  "column d j = map (\<lambda>i. nd_at d i j) [0..<fst (nd_shape d)]"

text \<open>
  A value handed to the matrix setter: \<^verbatim>\<open>None\<close>, an instance of
  \<^verbatim>\<open>scipy.sparse.spmatrix\<close>, a dense array, or an object of any other type, of which
  only the type's name matters.
\<close>

datatype 'a pyval =
    PyNone
  | PySparse "'a spmatrix"
  | PyDense "'a ndarray"
  | PyObject string

text \<open>\<^verbatim>\<open>type(v).__name__\<close>; every sparse format is shown under the name of the base class.\<close>

fun type_name :: "'a pyval \<Rightarrow> string" where
  "type_name PyNone = ''NoneType''"
| "type_name (PySparse a) = ''spmatrix''"
| "type_name (PyDense d) = ''ndarray''"
| "type_name (PyObject n) = n"

text \<open>A right-hand-side batch: a sparse matrix or a dense two-dimensional array.\<close>

datatype 'a batch = SparseB "'a spmatrix" | DenseB "'a ndarray"

fun batch_shape :: "'a batch \<Rightarrow> nat \<times> nat" where
  "batch_shape (SparseB qs) = sp_shape qs"
| "batch_shape (DenseB qs) = nd_shape qs"

text \<open>The four classes the module defines.\<close>

datatype solver_class = BaseSolver | MumpsSolver | MKLPardisoSolver | SuperLUSolver

text \<open>\<^verbatim>\<open>cls.__name__\<close>\<close>

fun class_name :: "solver_class \<Rightarrow> string" where
  "class_name BaseSolver = ''BaseSolver''"
| "class_name MumpsSolver = ''MumpsSolver''"
| "class_name MKLPardisoSolver = ''MKLPardisoSolver''"
| "class_name SuperLUSolver = ''SuperLUSolver''"

section \<open>The external solver libraries\<close>

text \<open>
  The bindings are native code with state of their own. A call takes the state of the
  outside world and returns the new one with its result or the exception it raised.
  \<open>'h\<close> is the type of factorization handles, \<open>'w\<close> the type of the world.
\<close>

text \<open>
  A positional argument of a call into a library: an adapter instance (of which the
  library can see the class), a sparse matrix, or an integer.
\<close>

datatype 'a arg = ArgInstance solver_class | ArgMatrix "'a spmatrix" | ArgInt int

type_synonym ('a, 'h, 'w) callable =
  "'a arg list \<Rightarrow> 'w \<Rightarrow> (exc + 'h) \<times> 'w"

text \<open>
  What the process finds outside the module: the outcome of each of the three import
  statements (the callable, or the exception the import raised), the methods of the
  handles, and the content of uninitialised memory.
\<close>

record ('a, 'h, 'w) env =
  import_MumpsSolver :: "exc + ('a, 'h, 'w) callable"
  import_pardisoSolver :: "exc + ('a, 'h, 'w) callable"
  import_splu :: "exc + ('a, 'h, 'w) callable"
  handle_mul :: "'h \<Rightarrow> 'a list \<Rightarrow> 'w \<Rightarrow> (exc + complex list) \<times> 'w"
  run_pardiso :: "'h \<Rightarrow> int \<Rightarrow> 'a list option \<Rightarrow> 'w \<Rightarrow> (exc + complex list) \<times> 'w"
  handle_solve :: "'h \<Rightarrow> 'a list \<Rightarrow> 'w \<Rightarrow> (exc + complex list) \<times> 'w"
  uninit :: "nat \<Rightarrow> nat \<Rightarrow> complex"

section \<open>Module initialisation: the backend registry\<close>

text \<open>
  The module's globals once it has been imported. \<open>imp_X\<close> is the global \<^verbatim>\<open>_X\<close>:
  the imported callable, or \<^verbatim>\<open>None\<close>. \<^verbatim>\<open>DefaultSolver\<close> is assigned \<^verbatim>\<open>None\<close> on the first
  line of the body and never again.
\<close>

record ('a, 'h, 'w) module =
  DefaultSolver :: "solver_class option"
  active :: "string list"
  solvers :: "(string \<times> solver_class) list"
  imp_MumpsSolver :: "('a, 'h, 'w) callable option"
  imp_MKLPardisoSolver :: "('a, 'h, 'w) callable option"
  imp_SuperLUSolver :: "('a, 'h, 'w) callable option"
  BestSolver :: solver_class

text \<open>Which exceptions each \<^verbatim>\<open>try: ... except\<close> clause catches.\<close>

fun is_ImportError :: "exc \<Rightarrow> bool" where
  "is_ImportError (ImportError s) = True"
| "is_ImportError e = False"

fun is_SyntaxError :: "exc \<Rightarrow> bool" where
  "is_SyntaxError (SyntaxError s) = True"
| "is_SyntaxError e = False"

text \<open>
  One \<^verbatim>\<open>try: from ... import ...  except ...: _X = None  else: active.append(name)\<close>
  block: the new value of \<^verbatim>\<open>_X\<close> and of \<^verbatim>\<open>active\<close>, or the exception that is not
  caught.
\<close>

fun try_import ::
  "(exc \<Rightarrow> bool) \<Rightarrow> exc + 'f \<Rightarrow> string \<Rightarrow> string list \<Rightarrow> exc + ('f option \<times> string list)" where
  "try_import catches (Inr f) name act = Inr (Some f, act @ [name])"
| "try_import catches (Inl e) name act = (if catches e then Inr (None, act) else Inl e)"

text \<open>\<^verbatim>\<open>d[k]\<close> on a dictionary kept as an association list.\<close>

definition getitem :: "(string \<times> 'v) list \<Rightarrow> string \<Rightarrow> exc + 'v" where
  "getitem d k = (case map_of d k of None \<Rightarrow> Inl (KeyError k) | Some v \<Rightarrow> Inr v)"

text \<open>
  The module body, top to bottom: the three probes, the check that a backend loaded,
  the three unconditional registrations in \<^verbatim>\<open>solvers\<close>, and \<^verbatim>\<open>BestSolver\<close>.
\<close>

definition load_module :: "('a, 'h, 'w) env \<Rightarrow> exc + ('a, 'h, 'w) module" where
  "load_module e =
     (case try_import (\<lambda>x. is_ImportError x \<or> is_SyntaxError x)
             (import_MumpsSolver e) ''mumps'' [] of
        Inl x \<Rightarrow> Inl x
      | Inr (mumps, act1) \<Rightarrow>
     (case try_import is_ImportError (import_pardisoSolver e) ''mklpardiso'' act1 of
        Inl x \<Rightarrow> Inl x
      | Inr (mkl, act2) \<Rightarrow>
     (case try_import is_ImportError (import_splu e) ''splu'' act2 of
        Inl x \<Rightarrow> Inl x
      | Inr (splu, act3) \<Rightarrow>
     (if act3 = [] then Inl (ImportError ''Problemo: could not load backend'')
      else
        let d = [(''mumps'', MumpsSolver), (''mklpardiso'', MKLPardisoSolver),
                 (''splu'', SuperLUSolver)]
        in (case getitem d (hd act3) of
              Inl x \<Rightarrow> Inl x
            | Inr best \<Rightarrow>
                Inr \<lparr>DefaultSolver = None, active = act3, solvers = d,
                     imp_MumpsSolver = mumps,
                     imp_MKLPardisoSolver = mkl, imp_SuperLUSolver = splu,
                     BestSolver = best\<rparr>)))))"

text \<open>The class attribute \<^verbatim>\<open>Solver\<close> of each adapter class.\<close>

fun Solver :: "('a, 'h, 'w) module \<Rightarrow> solver_class \<Rightarrow> ('a, 'h, 'w) callable option" where
  "Solver m BaseSolver = None"
| "Solver m MumpsSolver = imp_MumpsSolver m"
| "Solver m MKLPardisoSolver = imp_MKLPardisoSolver m"
| "Solver m SuperLUSolver = imp_SuperLUSolver m"

section \<open>Adapter instances\<close>

text \<open>
  Calls into the libraries are recorded, in order, in a log that the program itself
  does not have: it plays the part of the call counter of a test double.
\<close>

datatype ('a, 'h) event =
    SolverCall "'a arg list" "exc + 'h"
  | PardisoCall 'h int "'a list option"
  | MulCall 'h "'a list"
  | SolveCall 'h "'a list"

text \<open>
  An instance has the attributes \<^verbatim>\<open>_A\<close> and \<^verbatim>\<open>_Ainv\<close>, each present or absent
  (\<^verbatim>\<open>hasattr\<close>). The state carries the outside world and the log along with them.
\<close>

record ('a, 'h, 'w) state =
  attr_A :: "'a spmatrix option"
  attr_Ainv :: "'h option"
  world :: 'w
  trace :: "('a, 'h) event list"

text \<open>
  Reading \<^verbatim>\<open>self.Solver\<close> on an instance. \<^verbatim>\<open>pymatsolver.MumpsSolver\<close> and
  \<^verbatim>\<open>pyMKL.pardisoSolver\<close> are classes, and a class stored as a class attribute is read
  as it is. \<^verbatim>\<open>scipy.sparse.linalg.splu\<close> is a plain function, and a function stored as
  a class attribute is read through an instance as a method bound to it: the call
  \<^verbatim>\<open>self.Solver(self.A)\<close> of a \<^verbatim>\<open>SuperLUSolver\<close> is \<^verbatim>\<open>splu(self, self.A)\<close>.
\<close>

fun bound_args :: "solver_class \<Rightarrow> 'a arg list \<Rightarrow> 'a arg list" where
  "bound_args SuperLUSolver args = ArgInstance SuperLUSolver # args"
| "bound_args cls args = args"

text \<open>
  \<^verbatim>\<open>self.Solver(*args)\<close> on an instance of class \<open>cls\<close>: calling \<^verbatim>\<open>None\<close> raises
  \<^verbatim>\<open>TypeError\<close> without reaching any library.
\<close>

definition call_Solver ::
  "solver_class \<Rightarrow> ('a, 'h, 'w) callable option \<Rightarrow> 'a arg list \<Rightarrow> ('a, 'h, 'w) state
     \<Rightarrow> (exc + 'h) \<times> ('a, 'h, 'w) state" where
  "call_Solver cls f args s =
     (case f of
        None \<Rightarrow> (Inl (TypeError ''NoneType object is not callable''), s)
      | Some g \<Rightarrow>
          (case g (bound_args cls args) (world s) of
             (r, w) \<Rightarrow>
               (r, s\<lparr>world := w,
                     trace := trace s @ [SolverCall (bound_args cls args) r]\<rparr>)))"

definition call_run_pardiso ::
  "('a, 'h, 'w) env \<Rightarrow> 'h \<Rightarrow> int \<Rightarrow> 'a list option \<Rightarrow> ('a, 'h, 'w) state
     \<Rightarrow> (exc + complex list) \<times> ('a, 'h, 'w) state" where
  "call_run_pardiso e h phase q s =
     (case run_pardiso e h phase q (world s) of
        (r, w) \<Rightarrow> (r, s\<lparr>world := w, trace := trace s @ [PardisoCall h phase q]\<rparr>))"

definition call_mul ::
  "('a, 'h, 'w) env \<Rightarrow> 'h \<Rightarrow> 'a list \<Rightarrow> ('a, 'h, 'w) state
     \<Rightarrow> (exc + complex list) \<times> ('a, 'h, 'w) state" where
  "call_mul e h q s =
     (case handle_mul e h q (world s) of
        (r, w) \<Rightarrow> (r, s\<lparr>world := w, trace := trace s @ [MulCall h q]\<rparr>))"

definition call_solve ::
  "('a, 'h, 'w) env \<Rightarrow> 'h \<Rightarrow> 'a list \<Rightarrow> ('a, 'h, 'w) state
     \<Rightarrow> (exc + complex list) \<times> ('a, 'h, 'w) state" where
  "call_solve e h q s =
     (case handle_solve e h q (world s) of
        (r, w) \<Rightarrow> (r, s\<lparr>world := w, trace := trace s @ [SolveCall h q]\<rparr>))"

subsection \<open>The property \<^verbatim>\<open>A\<close>\<close>

definition BaseSolver_A :: "('a, 'h, 'w) state \<Rightarrow> exc + 'a spmatrix" where
  "BaseSolver_A s =
     (case attr_A s of
        None \<Rightarrow> Inl (Exception ''System matrix has not been set'')
      | Some a \<Rightarrow> Inr a)"

fun BaseSolver_A_setter ::
  "solver_class \<Rightarrow> 'a pyval \<Rightarrow> ('a, 'h, 'w) state \<Rightarrow> (exc + unit) \<times> ('a, 'h, 'w) state" where
  "BaseSolver_A_setter cls PyNone s = (Inr (), s)"
| "BaseSolver_A_setter cls (PySparse a) s = (Inr (), s\<lparr>attr_A := Some a\<rparr>)"
| "BaseSolver_A_setter cls v s =
     (Inl (Exception (''Class '' @ class_name cls @
                      '' can only register SciPy sparse matrices'')), s)"

text \<open>A new object in the world \<open>w\<close>: no attribute yet, nothing logged.\<close>

definition new_instance :: "'w \<Rightarrow> ('a, 'h, 'w) state" where
  "new_instance w = \<lparr>attr_A = None, attr_Ainv = None, world = w, trace = []\<rparr>"

text \<open>\<^verbatim>\<open>__init__(self, A=None)\<close>: the body is \<^verbatim>\<open>self.A = A\<close>.\<close>

definition BaseSolver_init ::
  "solver_class \<Rightarrow> 'a pyval \<Rightarrow> 'w \<Rightarrow> (exc + unit) \<times> ('a, 'h, 'w) state" where
  "BaseSolver_init cls v w = BaseSolver_A_setter cls v (new_instance w)"

subsection \<open>The property \<^verbatim>\<open>shape\<close>\<close>

definition BaseSolver_shape :: "('a, 'h, 'w) state \<Rightarrow> exc + nat \<times> nat" where
  "BaseSolver_shape s =
     (case BaseSolver_A s of
        Inl x \<Rightarrow> Inl x
      | Inr a \<Rightarrow> Inr (sp_shape (transpose_sp a)))"

subsection \<open>The property \<^verbatim>\<open>Ainv\<close>\<close>

text \<open>
  In \<^verbatim>\<open>self._Ainv = self.Solver(self.A)\<close> the argument \<^verbatim>\<open>self.A\<close> is evaluated before
  the call, and the attribute is assigned only when the call returns.
\<close>

definition BaseSolver_Ainv ::
  "('a, 'h, 'w) module \<Rightarrow> solver_class \<Rightarrow> ('a, 'h, 'w) state
     \<Rightarrow> (exc + 'h) \<times> ('a, 'h, 'w) state" where
  "BaseSolver_Ainv m cls s =
     (case attr_Ainv s of
        Some h \<Rightarrow> (Inr h, s)
      | None \<Rightarrow>
          (case BaseSolver_A s of
             Inl x \<Rightarrow> (Inl x, s)
           | Inr a \<Rightarrow>
               (case call_Solver cls (Solver m cls) [ArgMatrix a] s of
                  (Inl x, s1) \<Rightarrow> (Inl x, s1)
                | (Inr h, s1) \<Rightarrow> (Inr h, s1\<lparr>attr_Ainv := Some h\<rparr>))))"

text \<open>
  The override tests \<^verbatim>\<open>getattr(self, '_Ainv', None) is None\<close>; a handle is never
  \<^verbatim>\<open>None\<close>, so the test is again that the attribute is absent. The handle is stored
  before phase 12 runs.
\<close>

definition MKLPardisoSolver_Ainv ::
  "('a, 'h, 'w) env \<Rightarrow> ('a, 'h, 'w) module \<Rightarrow> solver_class \<Rightarrow> ('a, 'h, 'w) state
     \<Rightarrow> (exc + 'h) \<times> ('a, 'h, 'w) state" where
  "MKLPardisoSolver_Ainv e m cls s =
     (case attr_Ainv s of
        Some h \<Rightarrow> (Inr h, s)
      | None \<Rightarrow>
          (case BaseSolver_A s of
             Inl x \<Rightarrow> (Inl x, s)
           | Inr a \<Rightarrow>
               (case call_Solver cls (Solver m cls) [ArgMatrix a, ArgInt 13] s of
                  (Inl x, s1) \<Rightarrow> (Inl x, s1)
                | (Inr h, s1) \<Rightarrow>
                    (case call_run_pardiso e h 12 None (s1\<lparr>attr_Ainv := Some h\<rparr>) of
                       (Inl x, s2) \<Rightarrow> (Inl x, s2)
                     | (Inr u, s2) \<Rightarrow> (Inr h, s2)))))"

text \<open>Method resolution for \<^verbatim>\<open>self.Ainv\<close>.\<close>

fun Ainv ::
  "('a, 'h, 'w) env \<Rightarrow> ('a, 'h, 'w) module \<Rightarrow> solver_class \<Rightarrow> ('a, 'h, 'w) state
     \<Rightarrow> (exc + 'h) \<times> ('a, 'h, 'w) state" where
  "Ainv e m MKLPardisoSolver s = MKLPardisoSolver_Ainv e m MKLPardisoSolver s"
| "Ainv e m cls s = BaseSolver_Ainv m cls s"

subsection \<open>The single-vector primitive \<^verbatim>\<open>_solve\<close>\<close>

definition BaseSolver_solve ::
  "'a list \<Rightarrow> ('a, 'h, 'w) state \<Rightarrow> (exc + complex list) \<times> ('a, 'h, 'w) state" where
  "BaseSolver_solve q s = (Inl NotImplementedError, s)"

definition MumpsSolver_solve ::
  "('a, 'h, 'w) env \<Rightarrow> ('a, 'h, 'w) module \<Rightarrow> 'a list \<Rightarrow> ('a, 'h, 'w) state
     \<Rightarrow> (exc + complex list) \<times> ('a, 'h, 'w) state" where
  "MumpsSolver_solve e m q s =
     (case Ainv e m MumpsSolver s of
        (Inl x, s1) \<Rightarrow> (Inl x, s1)
      | (Inr h, s1) \<Rightarrow> call_mul e h q s1)"

definition MKLPardisoSolver_solve ::
  "('a, 'h, 'w) env \<Rightarrow> ('a, 'h, 'w) module \<Rightarrow> 'a list \<Rightarrow> ('a, 'h, 'w) state
     \<Rightarrow> (exc + complex list) \<times> ('a, 'h, 'w) state" where
  "MKLPardisoSolver_solve e m q s =
     (case Ainv e m MKLPardisoSolver s of
        (Inl x, s1) \<Rightarrow> (Inl x, s1)
      | (Inr h, s1) \<Rightarrow> call_run_pardiso e h 33 (Some q) s1)"

definition SuperLUSolver_solve ::
  "('a, 'h, 'w) env \<Rightarrow> ('a, 'h, 'w) module \<Rightarrow> 'a list \<Rightarrow> ('a, 'h, 'w) state
     \<Rightarrow> (exc + complex list) \<times> ('a, 'h, 'w) state" where
  "SuperLUSolver_solve e m q s =
     (case Ainv e m SuperLUSolver s of
        (Inl x, s1) \<Rightarrow> (Inl x, s1)
      | (Inr h, s1) \<Rightarrow> call_solve e h q s1)"

text \<open>Method resolution for \<^verbatim>\<open>self._solve\<close>.\<close>

fun solve ::
  "('a, 'h, 'w) env \<Rightarrow> ('a, 'h, 'w) module \<Rightarrow> solver_class \<Rightarrow> 'a list \<Rightarrow> ('a, 'h, 'w) state
     \<Rightarrow> (exc + complex list) \<times> ('a, 'h, 'w) state" where
  "solve e m BaseSolver q s = BaseSolver_solve q s"
| "solve e m MumpsSolver q s = MumpsSolver_solve e m q s"
| "solve e m MKLPardisoSolver q s = MKLPardisoSolver_solve e m q s"
| "solve e m SuperLUSolver q s = SuperLUSolver_solve e m q s"

subsection \<open>The batch solve \<^verbatim>\<open>__mul__\<close>\<close>

text \<open>The \<open>j\<close>-th vector the generator \<^verbatim>\<open>qIter\<close> yields, for either kind of batch.\<close>

fun qIter :: "('a::zero) batch \<Rightarrow> nat \<Rightarrow> exc + 'a list" where
  "qIter (SparseB qs) j =
     (case getcol qs j of
        Inl x \<Rightarrow> Inl x
      | Inr c \<Rightarrow> Inr (ravel (toarray c)))"
| "qIter (DenseB qs) j = dense_col qs j"

text \<open>
  The loop \<^verbatim>\<open>for i, q in enumerate(qIter(rhs)): result[:, i] = self._solve(q)\<close> over
  the remaining column indices; the counter \<open>i\<close> of \<^verbatim>\<open>enumerate\<close> is the index \<open>j\<close>
  of the generator.
\<close>

fun mul_loop ::
  "('a::zero, 'h, 'w) env \<Rightarrow> ('a, 'h, 'w) module \<Rightarrow> solver_class \<Rightarrow> 'a batch \<Rightarrow> nat list
     \<Rightarrow> complex ndarray \<Rightarrow> ('a, 'h, 'w) state
     \<Rightarrow> (exc + complex ndarray) \<times> ('a, 'h, 'w) state" where
  "mul_loop e m cls rhs [] result s = (Inr result, s)"
| "mul_loop e m cls rhs (j # js) result s =
     (case qIter rhs j of
        Inl x \<Rightarrow> (Inl x, s)
      | Inr q \<Rightarrow>
          (case solve e m cls q s of
             (Inl x, s1) \<Rightarrow> (Inl x, s1)
           | (Inr v, s1) \<Rightarrow>
               (case set_col result j v of
                  Inl x \<Rightarrow> (Inl x, s1)
                | Inr r1 \<Rightarrow> mul_loop e m cls rhs js r1 s1)))"

definition BaseSolver_mul ::
  "('a::zero, 'h, 'w) env \<Rightarrow> ('a, 'h, 'w) module \<Rightarrow> solver_class \<Rightarrow> 'a batch
     \<Rightarrow> ('a, 'h, 'w) state \<Rightarrow> (exc + complex ndarray) \<times> ('a, 'h, 'w) state" where
  "BaseSolver_mul e m cls rhs s =
     mul_loop e m cls rhs [0..<snd (batch_shape rhs)]
       (np_empty (uninit e) (batch_shape rhs)) s"

subsection \<open>The finalizer of the PARDISO adapter\<close>

definition MKLPardisoSolver_del ::
  "('a, 'h, 'w) env \<Rightarrow> ('a, 'h, 'w) state \<Rightarrow> (exc + unit) \<times> ('a, 'h, 'w) state" where
  "MKLPardisoSolver_del e s =
     (case attr_Ainv s of
        None \<Rightarrow> (Inr (), s)
      | Some h \<Rightarrow>
          (case call_run_pardiso e h (- 1) None s of
             (Inl x, s1) \<Rightarrow> (Inl x, s1)
           | (Inr u, s1) \<Rightarrow> (Inr (), s1\<lparr>attr_Ainv := None\<rparr>)))"

section \<open>Observing an instance\<close>

text \<open>The calls of the factorization routine in the log, and those that returned a handle.\<close>

fun is_SolverCall :: "('a, 'h) event \<Rightarrow> bool" where
  "is_SolverCall (SolverCall args r) = True"
| "is_SolverCall ev = False"

fun returned_handle :: "('a, 'h) event \<Rightarrow> bool" where
  "returned_handle (SolverCall args (Inr h)) = True"
| "returned_handle ev = False"

definition factor_calls :: "('a, 'h, 'w) state \<Rightarrow> ('a, 'h) event list" where
  "factor_calls s = filter is_SolverCall (trace s)"

definition constructions :: "('a, 'h, 'w) state \<Rightarrow> ('a, 'h) event list" where
  "constructions s = filter returned_handle (trace s)"

text \<open>The vectors handed to the solve entry point of a handle, in the order of the calls.\<close>

fun solve_arg :: "('a, 'h) event \<Rightarrow> 'a list option" where
  "solve_arg (MulCall h q) = Some q"
| "solve_arg (SolveCall h q) = Some q"
| "solve_arg (PardisoCall h phase q) = (if phase = 33 then q else None)"
| "solve_arg (SolverCall args r) = None"

definition solved_vectors :: "('a, 'h, 'w) state \<Rightarrow> 'a list list" where
  "solved_vectors s = List.map_filter solve_arg (trace s)"

text \<open>
  What can happen to an instance during its lifetime, and the state each request leaves
  behind, whether it returned or raised. \<open>Del\<close> is a run of the finalizer
  \<^verbatim>\<open>__del__\<close>, which only the PARDISO adapter defines.
\<close>

datatype 'a request =
    SetA "'a pyval"
  | GetA
  | GetShape
  | GetAinv
  | Solve1 "'a list"
  | Mul "'a batch"
  | Del

fun perform ::
  "('a::zero, 'h, 'w) env \<Rightarrow> ('a, 'h, 'w) module \<Rightarrow> solver_class \<Rightarrow> 'a request
     \<Rightarrow> ('a, 'h, 'w) state \<Rightarrow> ('a, 'h, 'w) state" where
  "perform e m cls (SetA v) s = snd (BaseSolver_A_setter cls v s)"
| "perform e m cls GetA s = s"
| "perform e m cls GetShape s = s"
| "perform e m cls GetAinv s = snd (Ainv e m cls s)"
| "perform e m cls (Solve1 q) s = snd (solve e m cls q s)"
| "perform e m cls (Mul rhs) s = snd (BaseSolver_mul e m cls rhs s)"
| "perform e m MKLPardisoSolver Del s = snd (MKLPardisoSolver_del e s)"
| "perform e m cls Del s = s"

definition perform_all ::
  "('a::zero, 'h, 'w) env \<Rightarrow> ('a, 'h, 'w) module \<Rightarrow> solver_class \<Rightarrow> 'a request list
     \<Rightarrow> ('a, 'h, 'w) state \<Rightarrow> ('a, 'h, 'w) state" where
  "perform_all e m cls reqs s = foldl (\<lambda>t r. perform e m cls r t) s reqs"

text \<open>
  The relation that every method keeps between the state it starts in and the state it
  leaves: a cached handle stays, with no further call of the factorization routine; with
  no cached handle, a handle is cached exactly when one more call has returned one.
\<close>

definition keeps :: "('a, 'h, 'w) state \<Rightarrow> ('a, 'h, 'w) state \<Rightarrow> bool" where
  "keeps s t \<longleftrightarrow>
     (\<forall>h. attr_Ainv s = Some h \<longrightarrow> attr_Ainv t = Some h \<and> factor_calls t = factor_calls s) \<and>
     (attr_Ainv s = None \<longrightarrow>
        length (constructions t) =
          length (constructions s) + (if attr_Ainv t = None then 0 else 1))"

text \<open>Column \<open>j\<close> of a batch as a dense vector, for either representation.\<close>

fun batch_col :: "('a::zero) batch \<Rightarrow> nat \<Rightarrow> 'a list" where
  "batch_col (SparseB qs) j =
     map (\<lambda>i. case sp_data qs (i, j) of None \<Rightarrow> 0 | Some x \<Rightarrow> x) [0..<fst (sp_shape qs)]"
| "batch_col (DenseB qs) j = column qs j"

text \<open>
  The state in which column \<open>j\<close> is solved when the columns before it have been solved
  one after the other, starting in \<open>s\<close>.
\<close>

fun state_at ::
  "('a::zero, 'h, 'w) env \<Rightarrow> ('a, 'h, 'w) module \<Rightarrow> solver_class \<Rightarrow> 'a batch \<Rightarrow> nat
     \<Rightarrow> ('a, 'h, 'w) state \<Rightarrow> ('a, 'h, 'w) state" where
  "state_at e m cls rhs 0 s = s"
| "state_at e m cls rhs (Suc j) s =
     snd (solve e m cls (batch_col rhs j) (state_at e m cls rhs j s))"

text \<open>\<^verbatim>\<open>isinstance(v, scipy.sparse.spmatrix)\<close>\<close>

fun isinstance_spmatrix :: "'a pyval \<Rightarrow> bool" where
  "isinstance_spmatrix (PySparse a) = True"
| "isinstance_spmatrix v = False"

text \<open>A handle is cached only on an instance whose matrix is set.\<close>

definition handle_needs_matrix :: "('a, 'h, 'w) state \<Rightarrow> bool" where
  "handle_needs_matrix s \<longleftrightarrow> (attr_A s = None \<longrightarrow> attr_Ainv s = None)"

text \<open>The identifiers whose import succeeded, in the order of the probes.\<close>

definition available :: "('a, 'h, 'w) env \<Rightarrow> string list" where
  "available e =
     (if isl (import_MumpsSolver e) then [] else [''mumps'']) @
     (if isl (import_pardisoSolver e) then [] else [''mklpardiso'']) @
     (if isl (import_splu e) then [] else [''splu''])"


text \<open>An error message names the type of a value when the type's name occurs in it.\<close>

definition names_type :: "string \<Rightarrow> 'a pyval \<Rightarrow> bool" where
  "names_type msg v = sublist (type_name v) msg"

section \<open>Test doubles\<close>

text \<open>
  Doubles of the three routines. The world counts the calls made so far and a handle is
  the count at its construction. The two classes take the arguments of their
  constructors; \<^verbatim>\<open>splu\<close> takes the matrix first and, as SciPy does, raises when its first
  argument is not one.
\<close>

fun double_mumps :: "(complex, nat, nat) callable" where
  "double_mumps [ArgMatrix a] w = (Inr w, Suc w)"
| "double_mumps args w = (Inl (TypeError ''MumpsSolver takes one matrix''), w)"

fun double_pardiso :: "(complex, nat, nat) callable" where
  "double_pardiso [ArgMatrix a, ArgInt t] w = (Inr w, Suc w)"
| "double_pardiso args w = (Inl (TypeError ''pardisoSolver takes a matrix and a type''), w)"

fun double_splu :: "(complex, nat, nat) callable" where
  "double_splu (ArgMatrix a # args) w = (Inr w, Suc w)"
| "double_splu args w = (Inl (ValueError ''unrecognized csc_matrix constructor usage''), w)"

text \<open>A process in which only SciPy's \<^verbatim>\<open>splu\<close> can be imported; solving doubles each entry.\<close>

definition double_env :: "(complex, nat, nat) env" where
  "double_env =
     \<lparr>import_MumpsSolver = Inl (ImportError ''No module named pymatsolver''),
      import_pardisoSolver = Inl (ImportError ''No module named pyMKL''),
      import_splu = Inr double_splu,
      handle_mul = (\<lambda>h q w. (Inl (OtherError ''not loaded''), w)),
      run_pardiso = (\<lambda>h p q w. (Inl (OtherError ''not loaded''), w)),
      handle_solve = (\<lambda>h q w. (Inr (map (\<lambda>x. 2 * x) q), Suc w)),
      uninit = (\<lambda>i j. 0)\<rparr>"

definition double_module :: "(complex, nat, nat) module" where
  "double_module =
     \<lparr>DefaultSolver = None, active = [''splu''],
      solvers = [(''mumps'', MumpsSolver), (''mklpardiso'', MKLPardisoSolver),
                 (''splu'', SuperLUSolver)],
      imp_MumpsSolver = None, imp_MKLPardisoSolver = None,
      imp_SuperLUSolver = Some double_splu,
      BestSolver = SuperLUSolver\<rparr>"

text \<open>A process in which pyMKL can be imported as well.\<close>

definition double_env2 :: "(complex, nat, nat) env" where
  "double_env2 = double_env\<lparr>import_pardisoSolver := Inr double_pardiso\<rparr>"

definition double_module2 :: "(complex, nat, nat) module" where
  "double_module2 =
     double_module\<lparr>active := [''mklpardiso'', ''splu''],
       imp_MKLPardisoSolver := Some double_pardiso, BestSolver := MKLPardisoSolver\<rparr>"

text \<open>
  A process in which all three can be imported. Every solve entry point doubles each
  entry of the vector it is given.
\<close>

definition full_env :: "(complex, nat, nat) env" where
  "full_env =
     \<lparr>import_MumpsSolver = Inr double_mumps,
      import_pardisoSolver = Inr double_pardiso,
      import_splu = Inr double_splu,
      handle_mul = (\<lambda>h q w. (Inr (map (\<lambda>x. 2 * x) q), Suc w)),
      run_pardiso =
        (\<lambda>h p q w. (Inr (case q of None \<Rightarrow> [] | Some v \<Rightarrow> map (\<lambda>x. 2 * x) v), Suc w)),
      handle_solve = (\<lambda>h q w. (Inr (map (\<lambda>x. 2 * x) q), Suc w)),
      uninit = (\<lambda>i j. 0)\<rparr>"

definition full_module :: "(complex, nat, nat) module" where
  "full_module =
     \<lparr>DefaultSolver = None, active = [''mumps'', ''mklpardiso'', ''splu''],
      solvers = [(''mumps'', MumpsSolver), (''mklpardiso'', MKLPardisoSolver),
                 (''splu'', SuperLUSolver)],
      imp_MumpsSolver = Some double_mumps, imp_MKLPardisoSolver = Some double_pardiso,
      imp_SuperLUSolver = Some double_splu,
      BestSolver = MumpsSolver\<rparr>"

text \<open>The same process with a MUMPS handle whose product is always the one-entry vector 7.\<close>

definition short_env :: "(complex, nat, nat) env" where
  "short_env = full_env\<lparr>handle_mul := (\<lambda>h q w. (Inr [7], Suc w))\<rparr>"




text \<open>Matrices and batches for the doubles.\<close>

definition eye2 :: "complex spmatrix" where
  "eye2 = \<lparr>sp_shape = (2, 2), sp_data = (\<lambda>(i, j). if i = j \<and> i < 2 then Some 1 else None)\<rparr>"

definition wide :: "complex spmatrix" where
  "wide = \<lparr>sp_shape = (2, 3), sp_data = (\<lambda>(i, j). if i = 0 \<and> j = 2 then Some 5 else None)\<rparr>"


definition no_columns :: "complex batch" where
  "no_columns = DenseB \<lparr>nd_shape = (2, 0), nd_at = (\<lambda>i j. 0)\<rparr>"

definition dense_rhs :: "complex ndarray" where
  "dense_rhs = \<lparr>nd_shape = (2, 2), nd_at = (\<lambda>i j. if i = j then 3 else 0)\<rparr>"

definition sparse_rhs :: "complex spmatrix" where
  "sparse_rhs = \<lparr>sp_shape = (2, 2), sp_data = (\<lambda>(i, j). if i = j then Some 3 else None)\<rparr>"

text \<open>
  An instance built with the matrix \<open>a\<close> in the world 0: its state does not depend on
  the class, which every method takes as an argument.
\<close>

definition with_matrix :: "complex spmatrix \<Rightarrow> (complex, nat, nat) state" where
  "with_matrix a = snd (BaseSolver_init SuperLUSolver (PySparse a) 0)"

text \<open>
  The states of a MUMPS adapter of the full process that holds \<open>eye2\<close>, after it has
  solved the first and the second column of \<open>dense_rhs\<close>.
\<close>

definition after_first :: "(complex, nat, nat) state" where
  "after_first =
     \<lparr>attr_A = Some eye2, attr_Ainv = Some 0, world = 2,
      trace = [SolverCall [ArgMatrix eye2] (Inr 0), MulCall 0 [3, 0]]\<rparr>"

definition after_second :: "(complex, nat, nat) state" where
  "after_second = after_first\<lparr>world := 3, trace := trace after_first @ [MulCall 0 [0, 3]]\<rparr>"


section \<open>Auxiliary facts\<close>

lemma returned_is_call: "returned_handle ev \<Longrightarrow> is_SolverCall ev"
  by (induction ev rule: returned_handle.induct) simp_all

lemma constructions_factor: "constructions s = filter returned_handle (factor_calls s)"
  by (auto simp: constructions_def factor_calls_def returned_is_call intro!: filter_cong)

lemma keeps_refl: "keeps s s"
  by (auto simp: keeps_def)

lemma keeps_trans: "keeps s t \<Longrightarrow> keeps t u \<Longrightarrow> keeps s u"
  unfolding keeps_def constructions_factor by (cases "attr_Ainv s"; cases "attr_Ainv t"; auto)

lemma keeps_log:
  "\<not> is_SolverCall ev \<Longrightarrow> keeps s (s\<lparr>world := w, trace := trace s @ [ev]\<rparr>)"
  by (auto simp: keeps_def factor_calls_def constructions_def elim: returned_handle.elims)

lemma keeps_call_run_pardiso: "keeps s (snd (call_run_pardiso e h p q s))"
  by (auto simp: call_run_pardiso_def keeps_log split: prod.splits)

lemma keeps_call_mul: "keeps s (snd (call_mul e h q s))"
  by (auto simp: call_mul_def keeps_log split: prod.splits)

lemma keeps_call_solve: "keeps s (snd (call_solve e h q s))"
  by (auto simp: call_solve_def keeps_log split: prod.splits)


lemma Ainv_cached: "attr_Ainv s = Some h \<Longrightarrow> Ainv e m cls s = (Inr h, s)"
  by (cases cls) (simp_all add: BaseSolver_Ainv_def MKLPardisoSolver_Ainv_def)

lemma Ainv_unset:
  "attr_Ainv s = None \<Longrightarrow> attr_A s = None \<Longrightarrow>
     Ainv e m cls s = (Inl (Exception ''System matrix has not been set''), s)"
  by (cases cls) (simp_all add: BaseSolver_Ainv_def MKLPardisoSolver_Ainv_def BaseSolver_A_def)

lemma keeps_BaseSolver_Ainv: "keeps s (snd (BaseSolver_Ainv m cls s))"
  by (auto simp: BaseSolver_Ainv_def call_Solver_def keeps_def factor_calls_def
        constructions_def BaseSolver_A_def split: option.splits sum.splits prod.splits)

lemma keeps_MKLPardisoSolver_Ainv: "keeps s (snd (MKLPardisoSolver_Ainv e m cls s))"
  by (auto simp: MKLPardisoSolver_Ainv_def call_Solver_def call_run_pardiso_def keeps_def
        factor_calls_def constructions_def BaseSolver_A_def
        split: option.splits sum.splits prod.splits)

lemma keeps_Ainv: "keeps s (snd (Ainv e m cls s))"
  by (cases cls) (simp_all add: keeps_BaseSolver_Ainv keeps_MKLPardisoSolver_Ainv)

lemma keeps_then:
  assumes "keeps s (snd (f s))" and "\<And>h t. keeps t (snd (g h t))"
  shows "keeps s (snd (case f s of (Inl x, s1) \<Rightarrow> (Inl x, s1) | (Inr h, s1) \<Rightarrow> g h s1))"
  using assms by (auto split: prod.splits sum.splits intro: keeps_trans)

lemma keeps_solve: "keeps s (snd (solve e m cls q s))"
proof (cases cls)
  case BaseSolver
  then show ?thesis by (simp add: BaseSolver_solve_def keeps_refl)
next
  case MumpsSolver
  then show ?thesis
    unfolding solve.simps MumpsSolver_solve_def MumpsSolver
    by (intro keeps_then keeps_Ainv keeps_call_mul)
next
  case MKLPardisoSolver
  then show ?thesis
    unfolding solve.simps MKLPardisoSolver_solve_def MKLPardisoSolver
    by (intro keeps_then keeps_Ainv keeps_call_run_pardiso)
next
  case SuperLUSolver
  then show ?thesis
    unfolding solve.simps SuperLUSolver_solve_def SuperLUSolver
    by (intro keeps_then keeps_Ainv keeps_call_solve)
qed

lemma keeps_mul_loop: "keeps s (snd (mul_loop e m cls rhs js r s))"
proof (induction js arbitrary: r s)
  case Nil
  then show ?case by (simp add: keeps_refl)
next
  case (Cons j js)
  show ?case
  proof (cases "qIter rhs j")
    case (Inl x)
    then show ?thesis by (simp add: keeps_refl)
  next
    case (Inr q)
    obtain res s1 where sv: "solve e m cls q s = (res, s1)" by (cases "solve e m cls q s")
    have k1: "keeps s s1" using keeps_solve [of s e m cls q] sv by simp
    show ?thesis
    proof (cases res)
      case (Inl x)
      then show ?thesis using Inr sv k1 by simp
    next
      case (Inr v)
      note v = this
      show ?thesis
      proof (cases "set_col r j v")
        case (Inl x)
        then show ?thesis using \<open>qIter rhs j = Inr q\<close> sv v k1 by simp
      next
        case (Inr r1)
        have "keeps s1 (snd (mul_loop e m cls rhs js r1 s1))" by (rule Cons.IH)
        then show ?thesis
          using \<open>qIter rhs j = Inr q\<close> sv v Inr k1 by (auto intro: keeps_trans)
      qed
    qed
  qed
qed



lemma call_attrs [simp]:
  "attr_A (snd (call_mul e h q s)) = attr_A s"
  "attr_Ainv (snd (call_mul e h q s)) = attr_Ainv s"
  "attr_A (snd (call_solve e h q s)) = attr_A s"
  "attr_Ainv (snd (call_solve e h q s)) = attr_Ainv s"
  "attr_A (snd (call_run_pardiso e h p q' s)) = attr_A s"
  "attr_Ainv (snd (call_run_pardiso e h p q' s)) = attr_Ainv s"
  "attr_A (snd (call_Solver c f args s)) = attr_A s"
  "attr_Ainv (snd (call_Solver c f args s)) = attr_Ainv s"
  by (auto simp: call_mul_def call_solve_def call_run_pardiso_def call_Solver_def
        split: prod.splits option.splits)

lemma Ainv_attr_A: "attr_A (snd (Ainv e m cls s)) = attr_A s"
proof -
  have b: "attr_A (snd (BaseSolver_Ainv m c s)) = attr_A s" for c
    unfolding BaseSolver_Ainv_def
    by (auto split: option.splits sum.splits prod.splits
          dest: arg_cong [where f = "\<lambda>p. attr_A (snd p)"])
  have k: "attr_A (snd (MKLPardisoSolver_Ainv e m c s)) = attr_A s" for c
    unfolding MKLPardisoSolver_Ainv_def
    by (auto split: option.splits sum.splits prod.splits
          dest!: arg_cong [where f = "\<lambda>p. attr_A (snd p)"])
  show ?thesis by (cases cls) (simp_all add: b k)
qed

lemma solve_attr_A: "attr_A (snd (solve e m cls q s)) = attr_A s"
  by (cases cls)
     (auto simp: BaseSolver_solve_def MumpsSolver_solve_def MKLPardisoSolver_solve_def
        SuperLUSolver_solve_def split: prod.splits sum.splits
        dest!: arg_cong [where f = "\<lambda>p. attr_A (snd p)"] simp: Ainv_attr_A simp del: Ainv.simps)

lemma mul_loop_attr_A: "attr_A (snd (mul_loop e m cls rhs js r s)) = attr_A s"
proof (induction js arbitrary: r s)
  case Nil
  then show ?case by simp
next
  case (Cons j js)
  show ?case
    using Cons.IH solve_attr_A [of e m cls _ s]
    by (auto split: sum.splits prod.splits dest!: arg_cong [where f = "\<lambda>p. attr_A (snd p)"])
qed

lemma solve_unset:
  "attr_A s = None \<Longrightarrow> attr_Ainv s = None \<Longrightarrow> cls \<noteq> BaseSolver \<Longrightarrow>
     solve e m cls q s = (Inl (Exception ''System matrix has not been set''), s)"
  by (cases cls)
     (simp_all add: MumpsSolver_solve_def MKLPardisoSolver_solve_def SuperLUSolver_solve_def
        Ainv_unset del: Ainv.simps)

lemma solve_unset_state:
  "attr_A s = None \<Longrightarrow> attr_Ainv s = None \<Longrightarrow> snd (solve e m cls q s) = s"
  by (cases "cls = BaseSolver") (simp_all add: solve_unset BaseSolver_solve_def)

lemma qIter_in_range:
  "j < snd (batch_shape rhs) \<Longrightarrow> qIter rhs j = Inr (batch_col rhs j)"
  by (cases rhs)
     (simp_all add: getcol_def toarray_def ravel_def dense_col_def column_def)

lemma mul_loop_unset_state:
  "attr_A s = None \<Longrightarrow> attr_Ainv s = None \<Longrightarrow> snd (mul_loop e m cls rhs js r s) = s"
proof (cases js)
  case Nil
  then show ?thesis by simp
next
  case (Cons j js')
  assume "attr_A s = None" "attr_Ainv s = None"
  then show ?thesis
    using Cons solve_unset_state [of s e m cls]
    by (cases "cls = BaseSolver")
       (auto simp: solve_unset BaseSolver_solve_def split: sum.splits)
qed

lemma perform_Del_attrs:
  "attr_A (perform e m cls Del s) = attr_A s"
  "factor_calls (perform e m cls Del s) = factor_calls s"
  "attr_Ainv (perform e m cls Del s) = attr_Ainv s \<or> attr_Ainv (perform e m cls Del s) = None"
  by (cases cls;
      auto simp: MKLPardisoSolver_del_def call_run_pardiso_def factor_calls_def
        split: option.splits prod.splits sum.splits)+



lemma perform_needs_matrix:
  assumes "handle_needs_matrix s"
  shows "handle_needs_matrix (perform e m cls r s)"
proof (cases "attr_A s")
  case None
  then have n: "attr_Ainv s = None" using assms by (simp add: handle_needs_matrix_def)
  show ?thesis
  proof (cases r)
    case (SetA v)
    then show ?thesis using None n by (cases v) (simp_all add: handle_needs_matrix_def)
  next
    case GetAinv
    then show ?thesis using None n assms by (simp add: Ainv_unset del: Ainv.simps)
  next
    case (Solve1 q)
    then show ?thesis using None n assms by (simp add: solve_unset_state)
  next
    case (Mul rhs)
    then show ?thesis using None n assms by (simp add: BaseSolver_mul_def mul_loop_unset_state)
  next
    case Del
    then show ?thesis using n assms by (cases cls) (simp_all add: MKLPardisoSolver_del_def)
  qed (use assms in simp_all)
next
  case (Some a)
  have "attr_A (perform e m cls r s) \<noteq> None"
  proof (cases r)
    case (SetA v)
    then show ?thesis using Some by (cases v) simp_all
  next
    case Del
    then show ?thesis using Some by (simp add: perform_Del_attrs(1))
  qed (use Some in \<open>simp_all add: Ainv_attr_A solve_attr_A mul_loop_attr_A BaseSolver_mul_def
         del: Ainv.simps\<close>)
  then show ?thesis by (auto simp: handle_needs_matrix_def)
qed

lemma perform_all_needs_matrix:
  "handle_needs_matrix s \<Longrightarrow> handle_needs_matrix (perform_all e m cls reqs s)"
  unfolding perform_all_def
  by (induction reqs arbitrary: s) (simp_all add: perform_needs_matrix)

lemma new_instance_needs_matrix: "handle_needs_matrix (new_instance w)"
  by (simp add: handle_needs_matrix_def new_instance_def)

lemma mul_unset:
  assumes "attr_A s = None" "attr_Ainv s = None" "cls \<noteq> BaseSolver" "0 < snd (batch_shape rhs)"
  shows "BaseSolver_mul e m cls rhs s = (Inl (Exception ''System matrix has not been set''), s)"
proof -
  have "[0..<snd (batch_shape rhs)] = 0 # [Suc 0..<snd (batch_shape rhs)]"
    using assms(4) by (simp add: upt_conv_Cons)
  then show ?thesis
    using assms by (simp add: BaseSolver_mul_def qIter_in_range solve_unset)
qed

lemma load_module_Inr:
  assumes "load_module e = Inr m"
  shows "active m = available e"
    and "solvers m = [(''mumps'', MumpsSolver), (''mklpardiso'', MKLPardisoSolver),
                      (''splu'', SuperLUSolver)]"
    and "getitem (solvers m) (hd (active m)) = Inr (BestSolver m)"
    and "active m \<noteq> []"
    and "imp_MumpsSolver m = (case import_MumpsSolver e of Inl y \<Rightarrow> None | Inr g \<Rightarrow> Some g)"
    and "imp_MKLPardisoSolver m = (case import_pardisoSolver e of Inl y \<Rightarrow> None | Inr g \<Rightarrow> Some g)"
    and "imp_SuperLUSolver m = (case import_splu e of Inl y \<Rightarrow> None | Inr g \<Rightarrow> Some g)"
    and "DefaultSolver m = None"
  using assms
  by (cases "import_MumpsSolver e"; cases "import_pardisoSolver e"; cases "import_splu e";
      auto simp: load_module_def getitem_def available_def split: if_splits)+

lemma mul_loop_cong:
  "\<forall>j \<in> set js. qIter rhs j = qIter rhs' j \<Longrightarrow>
     mul_loop e m cls rhs js r s = mul_loop e m cls rhs' js r s"
  by (induction js arbitrary: r s) (auto split: sum.splits prod.splits)

lemma set_col_ok:
  assumes "j < snd (nd_shape r)" and "length v = fst (nd_shape r)"
  shows "\<exists>r1. set_col r j v = Inr r1 \<and> nd_shape r1 = nd_shape r \<and> column r1 j = v \<and>
              (\<forall>i. i \<noteq> j \<longrightarrow> column r1 i = column r i)"
  using assms by (auto simp: set_col_def column_def intro: nth_equalityI)

lemma solve_state_at:
  "solve e m cls (batch_col rhs k) (state_at e m cls rhs k s) =
     (fst (solve e m cls (batch_col rhs k) (state_at e m cls rhs k s)),
      state_at e m cls rhs (Suc k) s)"
  by simp

lemma mul_loop_upt:
  assumes "k \<le> snd (batch_shape rhs)"
    and "\<forall>j. k \<le> j \<and> j < snd (batch_shape rhs) \<longrightarrow>
           (\<exists>v. fst (solve e m cls (batch_col rhs j) (state_at e m cls rhs j s)) = Inr v \<and>
                length v = fst (batch_shape rhs))"
    and "nd_shape r = batch_shape rhs"
  shows "\<exists>res. mul_loop e m cls rhs [k..<snd (batch_shape rhs)] r (state_at e m cls rhs k s) =
                 (Inr res, state_at e m cls rhs (snd (batch_shape rhs)) s) \<and>
               nd_shape res = batch_shape rhs \<and>
               (\<forall>j<k. column res j = column r j) \<and>
               (\<forall>j. k \<le> j \<and> j < snd (batch_shape rhs) \<longrightarrow>
                  Inr (column res j) =
                    fst (solve e m cls (batch_col rhs j) (state_at e m cls rhs j s)))"
  using assms
proof (induction k arbitrary: r rule: inc_induct)
  case base
  then show ?case by auto
next
  case (step k)
  let ?n = "snd (batch_shape rhs)"
  let ?sk = "state_at e m cls rhs k s"
  from step.prems(1) step.hyps(2) obtain v
    where v: "fst (solve e m cls (batch_col rhs k) ?sk) = Inr v"
      and len: "length v = fst (batch_shape rhs)"
    by auto
  have sv: "solve e m cls (batch_col rhs k) ?sk = (Inr v, state_at e m cls rhs (Suc k) s)"
    using v by (simp add: prod_eq_iff)
  have "k < snd (nd_shape r)" "length v = fst (nd_shape r)"
    using step.hyps(2) step.prems(2) len by simp_all
  from set_col_ok [OF this] obtain r1
    where r1: "set_col r k v = Inr r1" "nd_shape r1 = nd_shape r" "column r1 k = v"
      "\<forall>i. i \<noteq> k \<longrightarrow> column r1 i = column r i"
    by blast
  have later: "\<forall>j. Suc k \<le> j \<and> j < ?n \<longrightarrow>
           (\<exists>v. fst (solve e m cls (batch_col rhs j) (state_at e m cls rhs j s)) = Inr v \<and>
                length v = fst (batch_shape rhs))"
    using step.prems(1) by auto
  have "nd_shape r1 = batch_shape rhs" using r1(2) step.prems(2) by simp
  from step.IH [OF later this] obtain res
    where res: "mul_loop e m cls rhs [Suc k..<?n] r1 (state_at e m cls rhs (Suc k) s) =
                 (Inr res, state_at e m cls rhs ?n s)"
      "nd_shape res = batch_shape rhs"
      "\<forall>j<Suc k. column res j = column r1 j"
      "\<forall>j. Suc k \<le> j \<and> j < ?n \<longrightarrow>
          Inr (column res j) = fst (solve e m cls (batch_col rhs j) (state_at e m cls rhs j s))"
    by blast
  have "[k..<?n] = k # [Suc k..<?n]"
    using step.hyps(2) by (rule upt_conv_Cons)
  then have unfold: "mul_loop e m cls rhs [k..<?n] r ?sk =
                mul_loop e m cls rhs [Suc k..<?n] r1 (state_at e m cls rhs (Suc k) s)"
    using step.hyps(2) sv r1(1)
    by (simp add: qIter_in_range del: qIter.simps state_at.simps)
  have before: "\<forall>j<k. column res j = column r j"
    using res(3) r1(4) by auto
  have here: "Inr (column res k) = fst (solve e m cls (batch_col rhs k) ?sk)"
    using res(3) r1(3) v by simp
  have after: "\<forall>j. k \<le> j \<and> j < ?n \<longrightarrow>
          Inr (column res j) = fst (solve e m cls (batch_col rhs j) (state_at e m cls rhs j s))"
  proof (intro allI impI)
    fix j assume "k \<le> j \<and> j < ?n"
    then show "Inr (column res j) =
        fst (solve e m cls (batch_col rhs j) (state_at e m cls rhs j s))"
      using here res(4) by (cases "j = k") auto
  qed
  show ?case using unfold res(1) res(2) before after by (intro exI [of _ res]) simp
qed

lemma solved_vectors_log:
  "solved_vectors (s\<lparr>world := w, trace := trace s @ [ev]\<rparr>) =
     solved_vectors s @ (case solve_arg ev of None \<Rightarrow> [] | Some q \<Rightarrow> [q])"
  by (simp add: solved_vectors_def List.map_filter_def split: option.splits)

lemma solved_vectors_attr [simp]:
  "solved_vectors (s\<lparr>attr_Ainv := x\<rparr>) = solved_vectors s"
  by (simp add: solved_vectors_def)

lemma call_Solver_solved:
  "call_Solver c f args s = (r, t) \<Longrightarrow> solved_vectors t = solved_vectors s"
  by (auto simp: call_Solver_def solved_vectors_log split: option.splits prod.splits)

lemma call_run_pardiso_12_solved:
  "call_run_pardiso e h 12 None s = (r, t) \<Longrightarrow> solved_vectors t = solved_vectors s"
  by (auto simp: call_run_pardiso_def solved_vectors_log split: prod.splits)

lemma Ainv_solved: "solved_vectors (snd (Ainv e m cls s)) = solved_vectors s"
proof -
  have b: "solved_vectors (snd (BaseSolver_Ainv m c s)) = solved_vectors s" for c
    unfolding BaseSolver_Ainv_def
    by (auto split: option.splits sum.splits prod.splits dest: call_Solver_solved)
  have k: "solved_vectors (snd (MKLPardisoSolver_Ainv e m c s)) = solved_vectors s" for c
    unfolding MKLPardisoSolver_Ainv_def
    by (auto split: option.splits sum.splits prod.splits
          dest!: call_Solver_solved call_run_pardiso_12_solved)
  show ?thesis by (cases cls) (simp_all add: b k)
qed

lemma solve_solved:
  assumes "solve e m cls q s = (Inr v, t)"
  shows "solved_vectors t = solved_vectors s @ [q]"
proof -
  obtain r s1 where a: "Ainv e m cls s = (r, s1)" by (cases "Ainv e m cls s")
  have s1: "solved_vectors s1 = solved_vectors s" using Ainv_solved [of e m cls s] a by simp
  show ?thesis
  proof (cases cls)
    case BaseSolver
    then show ?thesis using assms by (simp add: BaseSolver_solve_def)
  next
    case MumpsSolver
    then show ?thesis
      using assms a s1
      by (auto simp: MumpsSolver_solve_def call_mul_def solved_vectors_log
            simp del: Ainv.simps split: sum.splits prod.splits)
  next
    case MKLPardisoSolver
    then show ?thesis
      using assms a s1
      by (auto simp: MKLPardisoSolver_solve_def call_run_pardiso_def solved_vectors_log
            simp del: Ainv.simps split: sum.splits prod.splits)
  next
    case SuperLUSolver
    then show ?thesis
      using assms a s1
      by (auto simp: SuperLUSolver_solve_def call_solve_def solved_vectors_log
            simp del: Ainv.simps split: sum.splits prod.splits)
  qed
qed

lemma state_at_solved:
  assumes "\<forall>j<n. \<exists>v. fst (solve e m cls (batch_col rhs j) (state_at e m cls rhs j s)) = Inr v"
  shows "solved_vectors (state_at e m cls rhs n s) =
           solved_vectors s @ map (batch_col rhs) [0..<n]"
  using assms
proof (induction n)
  case 0
  then show ?case by simp
next
  case (Suc n)
  then obtain v where "fst (solve e m cls (batch_col rhs n) (state_at e m cls rhs n s)) = Inr v"
    by auto
  then have "solve e m cls (batch_col rhs n) (state_at e m cls rhs n s) =
      (Inr v, state_at e m cls rhs (Suc n) s)"
    using solve_state_at [of e m cls rhs n s] by simp
  from solve_solved [OF this] Suc show ?case by simp
qed

lemma upt_2: "[0..<2] = [0, Suc 0]"
  by (simp add: upt_rec numeral_2_eq_2)

lemma dense_rhs_cols:
  "batch_col (DenseB dense_rhs) 0 = [3, 0]" "batch_col (DenseB dense_rhs) (Suc 0) = [0, 3]"
  by (simp_all add: column_def dense_rhs_def upt_2)

lemma sparse_rhs_cols:
  "batch_col (SparseB sparse_rhs) 0 = [3, 0]" "batch_col (SparseB sparse_rhs) (Suc 0) = [0, 3]"
  by (simp_all add: sparse_rhs_def upt_2)

lemma double_solve_first:
  "solve full_env full_module MumpsSolver [3, 0] (with_matrix eye2) =
     (Inr [6, 0], after_first)"
  by (simp add: MumpsSolver_solve_def BaseSolver_Ainv_def BaseSolver_A_def call_Solver_def
        call_mul_def with_matrix_def BaseSolver_init_def new_instance_def full_env_def
        full_module_def after_first_def numeral_2_eq_2)

lemma double_solve_second:
  "solve full_env full_module MumpsSolver [0, 3] after_first = (Inr [0, 6], after_second)"
  by (simp add: MumpsSolver_solve_def BaseSolver_Ainv_def call_mul_def full_env_def
        after_first_def after_second_def numeral_3_eq_3 numeral_2_eq_2)

lemma double_states:
  "state_at full_env full_module MumpsSolver (DenseB dense_rhs) (Suc 0) (with_matrix eye2) =
     after_first"
  "state_at full_env full_module MumpsSolver (DenseB dense_rhs) (Suc (Suc 0))
     (with_matrix eye2) = after_second"
  by (simp_all add: dense_rhs_cols double_solve_first double_solve_second
        del: solve.simps batch_col.simps)

lemma solve_cached:
  assumes "attr_Ainv s = Some h"
  shows "solve e m MumpsSolver q s = call_mul e h q s"
    and "solve e m MKLPardisoSolver q s = call_run_pardiso e h 33 (Some q) s"
    and "solve e m SuperLUSolver q s = call_solve e h q s"
  using Ainv_cached [OF assms]
  by (simp_all add: MumpsSolver_solve_def MKLPardisoSolver_solve_def SuperLUSolver_solve_def
        del: Ainv.simps)



text \<open>
  With a routine that rejects a first argument that is no matrix, as \<^verbatim>\<open>splu\<close> does, the
  access of a SuperLU adapter raises and caches nothing: the adapter hands itself over
  where the matrix belongs.
\<close>

lemma superlu_passes_self:
  "Ainv double_env double_module SuperLUSolver (with_matrix eye2) =
     (Inl (ValueError ''unrecognized csc_matrix constructor usage''),
      (with_matrix eye2)\<lparr>trace :=
         [SolverCall [ArgInstance SuperLUSolver, ArgMatrix eye2]
            (Inl (ValueError ''unrecognized csc_matrix constructor usage''))]\<rparr>)"
  by (simp add: BaseSolver_Ainv_def BaseSolver_A_def call_Solver_def with_matrix_def
        BaseSolver_init_def new_instance_def double_module_def)






section \<open>The matrix property\<close>

text \<open>
  C3 (as amended). Setting a sparse matrix stores it; setting \<^verbatim>\<open>None\<close> changes nothing;
  any other value raises an exception whose message names the class of the adapter, and
  the instance is unchanged.
\<close>

theorem setter_outcomes:
  "BaseSolver_A_setter cls (PySparse a) s = (Inr (), s\<lparr>attr_A := Some a\<rparr>) \<and>
   BaseSolver_A_setter cls PyNone s = (Inr (), s) \<and>
   (v \<noteq> PyNone \<and> \<not> isinstance_spmatrix v \<longrightarrow>
      BaseSolver_A_setter cls v s =
        (Inl (Exception (''Class '' @ class_name cls @
                         '' can only register SciPy sparse matrices'')), s))"
  by (cases v) simp_all

text \<open>The three outcomes on a MUMPS adapter that already holds a matrix.\<close>

theorem setter_outcomes_witness:
  "PyDense dense_rhs \<noteq> PyNone \<and> isinstance_spmatrix (PyDense dense_rhs) = False \<and>
   BaseSolver_A_setter MumpsSolver (PySparse eye2) (with_matrix wide) =
     (Inr (), (with_matrix wide)\<lparr>attr_A := Some eye2\<rparr>) \<and>
   BaseSolver_A_setter MumpsSolver PyNone (with_matrix wide) = (Inr (), with_matrix wide) \<and>
   BaseSolver_A_setter MumpsSolver (PyDense dense_rhs) (with_matrix wide) =
     (Inl (Exception ''Class MumpsSolver can only register SciPy sparse matrices''),
      with_matrix wide)"
  using setter_outcomes [of MumpsSolver eye2 "with_matrix wide" "PyDense dense_rhs"]
  by simp

text \<open>
  The message does not name the type of the rejected value: for a \<^verbatim>\<open>dict\<close> handed to
  a SuperLU adapter it reads the same as for any other value, and \<^verbatim>\<open>dict\<close> does not
  occur in it.
\<close>

theorem setter_names_type_counterexample:
  "fst (BaseSolver_A_setter SuperLUSolver (PyObject ''dict'') (with_matrix wide)) =
     Inl (Exception ''Class SuperLUSolver can only register SciPy sparse matrices'') \<and>
   \<not> names_type ''Class SuperLUSolver can only register SciPy sparse matrices''
        (PyObject ''dict'' :: complex pyval)"
  by (simp add: names_type_def sublist_Cons_right prefix_Cons)

text \<open>
  C4 (as amended). On an instance whose matrix has never been set, whatever was asked
  of it before, reading the matrix and reading the shape raise the exception
  \<^verbatim>\<open>System matrix has not been set\<close>, and so does the batch solve of a backend adapter
  on a batch with at least one column, leaving the instance as it was.
\<close>

theorem unset_matrix_errors:
  assumes "s = perform_all e m cls reqs (new_instance w)" and "attr_A s = None"
  shows "BaseSolver_A s = Inl (Exception ''System matrix has not been set'') \<and>
         BaseSolver_shape s = Inl (Exception ''System matrix has not been set'') \<and>
         (cls \<noteq> BaseSolver \<and> 0 < snd (batch_shape rhs) \<longrightarrow>
            BaseSolver_mul e m cls rhs s =
              (Inl (Exception ''System matrix has not been set''), s))"
proof -
  have "handle_needs_matrix s"
    using assms(1) by (simp add: perform_all_needs_matrix new_instance_needs_matrix)
  then have "attr_Ainv s = None" using assms(2) by (simp add: handle_needs_matrix_def)
  then show ?thesis
    using assms(2) by (simp add: BaseSolver_A_def BaseSolver_shape_def mul_unset)
qed

text \<open>A SuperLU adapter built without a matrix, asked for a batch of two columns.\<close>

theorem unset_matrix_errors_witness:
  "perform_all double_env double_module SuperLUSolver [SetA PyNone, Mul no_columns]
     (new_instance 0) = new_instance 0 \<and>
   attr_A (new_instance 0 :: (complex, nat, nat) state) = None \<and>
   SuperLUSolver \<noteq> BaseSolver \<and> 0 < snd (batch_shape (DenseB dense_rhs)) \<and>
   BaseSolver_A (new_instance 0 :: (complex, nat, nat) state) =
     Inl (Exception ''System matrix has not been set'') \<and>
   BaseSolver_shape (new_instance 0 :: (complex, nat, nat) state) =
     Inl (Exception ''System matrix has not been set'') \<and>
   BaseSolver_mul double_env double_module SuperLUSolver (DenseB dense_rhs) (new_instance 0) =
     (Inl (Exception ''System matrix has not been set''), new_instance 0)"
proof -
  have p: "perform_all double_env double_module SuperLUSolver [SetA PyNone, Mul no_columns]
     (new_instance 0) = new_instance 0"
    by (simp add: perform_all_def BaseSolver_mul_def no_columns_def)
  have a: "attr_A (new_instance 0 :: (complex, nat, nat) state) = None"
    by (simp add: new_instance_def)
  show ?thesis
    using p a unset_matrix_errors [OF p [symmetric] a, of "DenseB dense_rhs"]
    by (simp add: dense_rhs_def)
qed

text \<open>
  The batch solve does not fail on every such instance: with a batch of no columns it
  returns the empty result.
\<close>

theorem unset_mul_counterexample:
  "attr_A (new_instance 0 :: (complex, nat, nat) state) = None \<and>
   fst (BaseSolver_mul double_env double_module SuperLUSolver no_columns (new_instance 0)) =
     Inr (np_empty (uninit double_env) (2, 0))"
  by (simp add: BaseSolver_mul_def no_columns_def new_instance_def)

section \<open>The shape property\<close>

text \<open>
  C6. With a matrix of shape \<open>(k, n)\<close> set, the shape property returns \<open>(n, k)\<close>, the
  shape of the transpose.
\<close>

theorem shape_is_transposed:
  assumes "attr_A s = Some a" and "sp_shape a = (k, n)"
  shows "BaseSolver_shape s = Inr (n, k)"
  using assms by (simp add: BaseSolver_shape_def BaseSolver_A_def transpose_sp_def)

text \<open>A matrix of two rows and three columns.\<close>

theorem shape_is_transposed_witness:
  "attr_A (with_matrix wide) = Some wide \<and> sp_shape wide = (2, 3) \<and>
   BaseSolver_shape (with_matrix wide) = Inr (3, 2)"
  using shape_is_transposed [of "with_matrix wide" wide 2 3]
  by (simp add: with_matrix_def BaseSolver_init_def new_instance_def wide_def)

section \<open>The batch solve\<close>

text \<open>
  C10. On a batch with no columns the batch solve returns the empty array of the
  batch's shape and leaves the instance, the world and the log as they were: no
  primitive is called and no handle is built, whether or not a matrix is set.
\<close>

theorem mul_no_columns:
  assumes "snd (batch_shape rhs) = 0"
  shows "BaseSolver_mul e m cls rhs s = (Inr (np_empty (uninit e) (batch_shape rhs)), s) \<and>
         nd_shape (np_empty (uninit e) (batch_shape rhs)) = batch_shape rhs"
  using assms by (simp add: BaseSolver_mul_def np_empty_def)

text \<open>A batch of shape \<open>(2, 0)\<close> on a SuperLU adapter with no matrix.\<close>

theorem mul_no_columns_witness:
  "snd (batch_shape no_columns) = 0 \<and>
   attr_A (new_instance 0 :: (complex, nat, nat) state) = None \<and>
   BaseSolver_mul double_env double_module SuperLUSolver no_columns (new_instance 0) =
     (Inr (np_empty (uninit double_env) (2, 0)), new_instance 0)"
  using mul_no_columns [of no_columns double_env double_module SuperLUSolver "new_instance 0"]
  by (simp add: no_columns_def new_instance_def)

text \<open>
  C1 (as amended). Let every call of the single-vector primitive, made on the columns of
  the batch in the order \<open>0, 1, \<dots>\<close> and each in the state the call before it left,
  return a vector with one entry for each row of the batch. Then the batch solve returns
  a dense complex array of the shape of the batch whose column \<open>j\<close> is what the
  primitive returned for the dense column \<open>j\<close> of the batch; it leaves the state the
  last call left; and the vectors handed to the backend are the columns of the batch in
  index order.
\<close>

theorem mul_columns:
  assumes "\<forall>j < snd (batch_shape rhs).
             \<exists>v. fst (solve e m cls (batch_col rhs j) (state_at e m cls rhs j s)) = Inr v \<and>
                 length v = fst (batch_shape rhs)"
  shows "\<exists>res t. BaseSolver_mul e m cls rhs s = (Inr res, t) \<and>
           nd_shape res = batch_shape rhs \<and>
           (\<forall>j < snd (batch_shape rhs).
              Inr (column res j) =
                fst (solve e m cls (batch_col rhs j) (state_at e m cls rhs j s))) \<and>
           t = state_at e m cls rhs (snd (batch_shape rhs)) s \<and>
           solved_vectors t =
             solved_vectors s @ map (batch_col rhs) [0..<snd (batch_shape rhs)]"
proof -
  let ?n = "snd (batch_shape rhs)"
  have k0: "0 \<le> ?n" by simp
  have a: "\<forall>j. 0 \<le> j \<and> j < ?n \<longrightarrow>
           (\<exists>v. fst (solve e m cls (batch_col rhs j) (state_at e m cls rhs j s)) = Inr v \<and>
                length v = fst (batch_shape rhs))"
    using assms by simp
  have sh: "nd_shape (np_empty (uninit e) (batch_shape rhs)) = batch_shape rhs"
    by (simp add: np_empty_def)
  have "\<forall>j<?n. \<exists>v. fst (solve e m cls (batch_col rhs j) (state_at e m cls rhs j s)) = Inr v"
  proof (intro allI impI)
    fix j assume "j < ?n"
    with assms obtain v
      where "fst (solve e m cls (batch_col rhs j) (state_at e m cls rhs j s)) = Inr v \<and>
             length v = fst (batch_shape rhs)"
      by (elim allE [of _ j] impE exE)
    then show "\<exists>v. fst (solve e m cls (batch_col rhs j) (state_at e m cls rhs j s)) = Inr v"
      by (intro exI [of _ v]) simp
  qed
  then have sv: "solved_vectors (state_at e m cls rhs ?n s) =
      solved_vectors s @ map (batch_col rhs) [0..<?n]"
    by (rule state_at_solved)
  from mul_loop_upt [OF k0 a sh] obtain res
    where res: "mul_loop e m cls rhs [0..<?n] (np_empty (uninit e) (batch_shape rhs))
             (state_at e m cls rhs 0 s) = (Inr res, state_at e m cls rhs ?n s) \<and>
           nd_shape res = batch_shape rhs \<and>
           (\<forall>j<0. column res j = column (np_empty (uninit e) (batch_shape rhs)) j) \<and>
           (\<forall>j. 0 \<le> j \<and> j < ?n \<longrightarrow>
              Inr (column res j) =
                fst (solve e m cls (batch_col rhs j) (state_at e m cls rhs j s)))" ..
  show ?thesis
  proof (intro exI [of _ res] exI [of _ "state_at e m cls rhs ?n s"] conjI)
    show "BaseSolver_mul e m cls rhs s = (Inr res, state_at e m cls rhs ?n s)"
      using res by (simp add: BaseSolver_mul_def)
    show "nd_shape res = batch_shape rhs" using res by simp
    show "\<forall>j<?n. Inr (column res j) =
        fst (solve e m cls (batch_col rhs j) (state_at e m cls rhs j s))"
      using res by simp
    show "solved_vectors (state_at e m cls rhs ?n s) =
        solved_vectors s @ map (batch_col rhs) [0..<?n]"
      by (rule sv)
  qed simp
qed

text \<open>
  A MUMPS adapter of the full process holding \<open>eye2\<close>, asked for a dense batch of two
  columns: the first column factorizes and solves, the second solves with the cached
  handle.
\<close>

theorem mul_columns_witness:
  "fst (solve full_env full_module MumpsSolver (batch_col (DenseB dense_rhs) 0)
          (with_matrix eye2)) = Inr [6, 0] \<and>
   fst (solve full_env full_module MumpsSolver (batch_col (DenseB dense_rhs) 1)
          after_first) = Inr [0, 6] \<and>
   nd_shape (projr (fst (BaseSolver_mul full_env full_module MumpsSolver
      (DenseB dense_rhs) (with_matrix eye2)))) = (2, 2) \<and>
   column (projr (fst (BaseSolver_mul full_env full_module MumpsSolver
      (DenseB dense_rhs) (with_matrix eye2)))) 0 = [6, 0] \<and>
   column (projr (fst (BaseSolver_mul full_env full_module MumpsSolver
      (DenseB dense_rhs) (with_matrix eye2)))) 1 = [0, 6] \<and>
   solved_vectors (snd (BaseSolver_mul full_env full_module MumpsSolver
      (DenseB dense_rhs) (with_matrix eye2))) = [[3, 0], [0, 3]]"
proof -
  let ?rhs = "DenseB dense_rhs"
  let ?s = "with_matrix eye2"
  let ?at = "state_at full_env full_module MumpsSolver ?rhs"
  let ?sol = "solve full_env full_module MumpsSolver"
  have sh: "batch_shape ?rhs = (2, 2)" by (simp add: dense_rhs_def)
  have c0: "fst (?sol (batch_col ?rhs 0) ?s) = Inr [6, 0]"
    by (simp only: dense_rhs_cols double_solve_first fst_conv)
  have c1: "fst (?sol (batch_col ?rhs (Suc 0)) after_first) = Inr [0, 6]"
    by (simp only: dense_rhs_cols double_solve_second fst_conv)
  have at0: "?at 0 ?s = ?s" by simp
  note at1 = double_states(1)
  have h: "\<forall>j < snd (batch_shape ?rhs).
             \<exists>v. fst (?sol (batch_col ?rhs j) (?at j ?s)) = Inr v \<and>
                 length v = fst (batch_shape ?rhs)"
  proof (intro allI impI)
    fix j assume "j < snd (batch_shape ?rhs)"
    then have "j = 0 \<or> j = Suc 0" unfolding sh by auto
    then show "\<exists>v. fst (?sol (batch_col ?rhs j) (?at j ?s)) = Inr v \<and>
                 length v = fst (batch_shape ?rhs)"
      using c0 c1 unfolding sh
      by (elim disjE) (simp_all add: at0 at1 del: solve.simps batch_col.simps state_at.simps)
  qed
  from mul_columns [OF h] obtain res t
    where r: "BaseSolver_mul full_env full_module MumpsSolver ?rhs ?s = (Inr res, t)"
      and shape: "nd_shape res = batch_shape ?rhs"
      and cols: "\<forall>j < snd (batch_shape ?rhs).
              Inr (column res j) = fst (?sol (batch_col ?rhs j) (?at j ?s))"
      and t: "t = ?at (snd (batch_shape ?rhs)) ?s"
      and sv: "solved_vectors t =
             solved_vectors ?s @ map (batch_col ?rhs) [0..<snd (batch_shape ?rhs)]"
    by (elim exE conjE)
  have k0: "column res 0 = [6, 0]"
    using cols c0 unfolding sh at0 by (elim allE [of _ 0]) (simp del: solve.simps batch_col.simps)
  have k1: "column res (Suc 0) = [0, 6]"
    using cols c1 unfolding sh
    by (elim allE [of _ "Suc 0"]) (simp add: at1 del: solve.simps batch_col.simps state_at.simps)
  have e: "solved_vectors ?s = []"
    by (simp add: solved_vectors_def with_matrix_def BaseSolver_init_def new_instance_def)
  have v: "solved_vectors t = [[3, 0], [0, 3]]"
    using sv unfolding sh e by (simp add: upt_2 dense_rhs_cols del: batch_col.simps)
  show ?thesis
    using r shape k0 k1 v c0 c1 unfolding sh
    by (simp del: solve.simps batch_col.simps)
qed

text \<open>
  Without the condition on the lengths the result need not hold what the primitive
  returned: a MUMPS handle whose product has one entry is accepted, and the entry is
  repeated down the column.
\<close>

theorem mul_broadcast_counterexample:
  "attr_A (with_matrix eye2) = Some eye2 \<and>
   fst (solve short_env full_module MumpsSolver (batch_col (DenseB dense_rhs) 0)
          (with_matrix eye2)) = Inr [7] \<and>
   \<not> isl (fst (BaseSolver_mul short_env full_module MumpsSolver (DenseB dense_rhs)
          (with_matrix eye2))) \<and>
   column (projr (fst (BaseSolver_mul short_env full_module MumpsSolver (DenseB dense_rhs)
          (with_matrix eye2)))) 0 = [7, 7]"
  by (simp add: BaseSolver_mul_def upt_2 dense_rhs_def dense_col_def column_def set_col_def
        np_empty_def MumpsSolver_solve_def BaseSolver_Ainv_def BaseSolver_A_def
        call_Solver_def call_mul_def with_matrix_def BaseSolver_init_def new_instance_def
        short_env_def full_env_def full_module_def)

text \<open>
  C8. A sparse batch and the dense batch of the same shape and entries give the same
  outcome of the batch solve, result or exception, and leave the same state.
\<close>

theorem representation_invariance:
  assumes "nd_shape d = sp_shape sp"
    and "\<forall>i < fst (sp_shape sp). \<forall>j < snd (sp_shape sp). nd_at d i j = nd_at (toarray sp) i j"
  shows "BaseSolver_mul e m cls (SparseB sp) s = BaseSolver_mul e m cls (DenseB d) s"
proof -
  have "qIter (SparseB sp) j = qIter (DenseB d) j" if "j < snd (sp_shape sp)" for j
    using that assms by (simp add: qIter_in_range column_def toarray_def del: qIter.simps)
  then have "mul_loop e m cls (SparseB sp) [0..<snd (sp_shape sp)] r s =
             mul_loop e m cls (DenseB d) [0..<snd (sp_shape sp)] r s" for r
    by (intro mul_loop_cong) simp
  then show ?thesis by (simp add: BaseSolver_mul_def assms(1))
qed

text \<open>The batch with 3 on the diagonal, in both representations.\<close>

theorem representation_invariance_witness:
  "nd_shape dense_rhs = sp_shape sparse_rhs \<and>
   batch_col (SparseB sparse_rhs) 0 = batch_col (DenseB dense_rhs) 0 \<and>
   batch_col (SparseB sparse_rhs) 1 = batch_col (DenseB dense_rhs) 1 \<and>
   BaseSolver_mul full_env full_module MumpsSolver (SparseB sparse_rhs) (with_matrix eye2) =
   BaseSolver_mul full_env full_module MumpsSolver (DenseB dense_rhs) (with_matrix eye2)"
proof -
  have h1: "nd_shape dense_rhs = sp_shape sparse_rhs"
    by (simp add: dense_rhs_def sparse_rhs_def)
  have h2: "\<forall>i < fst (sp_shape sparse_rhs). \<forall>j < snd (sp_shape sparse_rhs).
              nd_at dense_rhs i j = nd_at (toarray sparse_rhs) i j"
    by (simp add: dense_rhs_def sparse_rhs_def toarray_def)
  show ?thesis
    using h1 representation_invariance [OF h1 h2]
    by (simp add: dense_rhs_cols sparse_rhs_cols del: batch_col.simps)
qed

section \<open>The registry\<close>

text \<open>
  C5. When the module loads, \<^verbatim>\<open>active\<close> lists the identifiers whose import succeeded in
  the order mumps, mklpardiso, splu of the probes, it is not empty, and \<^verbatim>\<open>BestSolver\<close>
  is the class registered under its first entry: the MUMPS adapter if that import
  succeeded, else the PARDISO adapter if that one did, else the SuperLU adapter. The
  default is exposed as \<^verbatim>\<open>BestSolver\<close>; the global \<^verbatim>\<open>DefaultSolver\<close> stays \<^verbatim>\<open>None\<close>.
\<close>

theorem registry_priority:
  assumes "load_module e = Inr m"
  shows "active m = available e \<and> active m \<noteq> [] \<and>
         getitem (solvers m) (hd (active m)) = Inr (BestSolver m) \<and>
         BestSolver m =
           (if \<not> isl (import_MumpsSolver e) then MumpsSolver
            else if \<not> isl (import_pardisoSolver e) then MKLPardisoSolver
            else SuperLUSolver) \<and>
         DefaultSolver m = None"
proof -
  note l = load_module_Inr [OF assms]
  have "BestSolver m =
           (if \<not> isl (import_MumpsSolver e) then MumpsSolver
            else if \<not> isl (import_pardisoSolver e) then MKLPardisoSolver
            else SuperLUSolver)"
    using l(3) l(4) unfolding l(1) l(2) available_def getitem_def
    by (auto split: if_splits)
  then show ?thesis using l by simp
qed

text \<open>pyMKL and SciPy load, pymatsolver does not: the default is the PARDISO adapter.\<close>

theorem registry_priority_witness:
  "load_module double_env2 = Inr double_module2 \<and>
   available double_env2 = [''mklpardiso'', ''splu''] \<and>
   active double_module2 = [''mklpardiso'', ''splu''] \<and>
   getitem (solvers double_module2) ''mklpardiso'' = Inr MKLPardisoSolver \<and>
   BestSolver double_module2 = MKLPardisoSolver"
proof -
  have l: "load_module double_env2 = Inr double_module2"
    by (simp add: load_module_def double_env2_def double_env_def double_module2_def
          double_module_def getitem_def)
  show ?thesis
    using l registry_priority [OF l]
    by (simp add: double_module2_def double_module_def available_def double_env2_def
          double_env_def getitem_def)
qed

text \<open>
  C9 (as amended). When the module loads, \<^verbatim>\<open>solvers\<close> holds all three identifiers with
  their adapter classes, whichever imports succeeded; the class of a backend that did
  not load has \<^verbatim>\<open>None\<close> for its factorization routine.
\<close>

theorem solvers_registered:
  assumes "load_module e = Inr m"
  shows "solvers m = [(''mumps'', MumpsSolver), (''mklpardiso'', MKLPardisoSolver),
                      (''splu'', SuperLUSolver)] \<and>
         Solver m MumpsSolver = (case import_MumpsSolver e of Inl y \<Rightarrow> None | Inr g \<Rightarrow> Some g) \<and>
         Solver m MKLPardisoSolver =
           (case import_pardisoSolver e of Inl y \<Rightarrow> None | Inr g \<Rightarrow> Some g) \<and>
         Solver m SuperLUSolver = (case import_splu e of Inl y \<Rightarrow> None | Inr g \<Rightarrow> Some g)"
  using load_module_Inr [OF assms] by simp

text \<open>Only SciPy loads.\<close>

theorem solvers_registered_witness:
  "load_module double_env = Inr double_module \<and>
   map fst (solvers double_module) = [''mumps'', ''mklpardiso'', ''splu''] \<and>
   Solver double_module MumpsSolver = None \<and>
   Solver double_module SuperLUSolver = Some double_splu"
proof -
  have l: "load_module double_env = Inr double_module"
    by (simp add: load_module_def double_env_def double_module_def getitem_def)
  show ?thesis
    using l solvers_registered [OF l] by (simp add: double_module_def)
qed

text \<open>
  The import of pymatsolver fails, \<^verbatim>\<open>mumps\<close> is not in \<^verbatim>\<open>active\<close>, and the mapping
  still has an entry for it.
\<close>

theorem solvers_unavailable_counterexample:
  "load_module double_env = Inr double_module \<and>
   import_MumpsSolver double_env = Inl (ImportError ''No module named pymatsolver'') \<and>
   ''mumps'' \<notin> set (active double_module) \<and>
   getitem (solvers double_module) ''mumps'' = Inr MumpsSolver"
  by (simp add: load_module_def double_env_def double_module_def getitem_def)

section \<open>The factorization handle\<close>




text \<open>
  C7. Setting a new sparse matrix on an instance that holds a handle stores the matrix
  and leaves the handle cached: the next access returns the old handle, the primitive of
  each backend passes the old handle to the library, and a later batch solve does not
  call the factorization routine.
\<close>

theorem setter_keeps_handle:
  assumes "attr_Ainv s = Some h"
    and "BaseSolver_A_setter cls (PySparse b) s = (r, t)"
  shows "attr_A t = Some b \<and> attr_Ainv t = Some h \<and> factor_calls t = factor_calls s \<and>
         Ainv e m cls t = (Inr h, t) \<and>
         solve e m MumpsSolver q t = call_mul e h q t \<and>
         solve e m MKLPardisoSolver q t = call_run_pardiso e h 33 (Some q) t \<and>
         solve e m SuperLUSolver q t = call_solve e h q t \<and>
         factor_calls (snd (BaseSolver_mul e m cls rhs t)) = factor_calls s"
proof -
  have t: "t = s\<lparr>attr_A := Some b\<rparr>" using assms(2) by simp
  then have h: "attr_Ainv t = Some h" using assms(1) by simp
  have f: "factor_calls t = factor_calls s" using t by (simp add: factor_calls_def)
  have "keeps t (snd (BaseSolver_mul e m cls rhs t))"
    by (simp add: BaseSolver_mul_def keeps_mul_loop)
  then have "factor_calls (snd (BaseSolver_mul e m cls rhs t)) = factor_calls s"
    using h f by (simp add: keeps_def)
  then show ?thesis
    using t h f Ainv_cached [OF h] solve_cached [OF h] by (simp del: solve.simps Ainv.simps)
qed

text \<open>
  The MUMPS adapter holds handle 0, factorized from \<open>eye2\<close>; after \<open>wide\<close> is set
  it still solves with handle 0.
\<close>

theorem setter_keeps_handle_witness:
  "attr_Ainv after_first = Some 0 \<and>
   BaseSolver_A_setter MumpsSolver (PySparse wide) after_first =
     (Inr (), after_first\<lparr>attr_A := Some wide\<rparr>) \<and>
   attr_A (after_first\<lparr>attr_A := Some wide\<rparr>) = Some wide \<and>
   attr_Ainv (after_first\<lparr>attr_A := Some wide\<rparr>) = Some 0 \<and>
   Ainv full_env full_module MumpsSolver (after_first\<lparr>attr_A := Some wide\<rparr>) =
     (Inr 0, after_first\<lparr>attr_A := Some wide\<rparr>) \<and>
   fst (solve full_env full_module MumpsSolver [0, 3] (after_first\<lparr>attr_A := Some wide\<rparr>)) =
     Inr [0, 6] \<and>
   factor_calls (snd (BaseSolver_mul full_env full_module MumpsSolver (DenseB dense_rhs)
     (after_first\<lparr>attr_A := Some wide\<rparr>))) = [SolverCall [ArgMatrix eye2] (Inr 0)]"
proof -
  have a: "attr_Ainv after_first = Some 0" by (simp add: after_first_def)
  have b: "BaseSolver_A_setter MumpsSolver (PySparse wide) after_first =
     (Inr (), after_first\<lparr>attr_A := Some wide\<rparr>)" by simp
  have c: "factor_calls after_first = [SolverCall [ArgMatrix eye2] (Inr 0)]"
    by (simp add: factor_calls_def after_first_def)
  have d: "fst (call_mul full_env 0 [0, 3] (after_first\<lparr>attr_A := Some wide\<rparr>)) = Inr [0, 6]"
    by (simp add: call_mul_def full_env_def)
  show ?thesis
    using a c d setter_keeps_handle [OF a b, of full_env full_module "[0, 3]" "DenseB dense_rhs"]
    by (simp del: solve.simps Ainv.simps)
qed


end
